theory Spec2Isabelle
  imports Main "HOL-Library.Multiset"
begin

section \<open>Entity model\<close>

text \<open>
  The embedding follows \<^verbatim>\<open>bpmn_schema/core\<close>. Every class deriving from
  \<^verbatim>\<open>BPMNElement\<close> is a record extending the base record; the two classes that contain
  values of their own class (\<^verbatim>\<open>SubProcess\<close>, \<^verbatim>\<open>Lane\<close>) are datatypes with
  selectors. The visual metadata (\<^verbatim>\<open>position\<close>, \<^verbatim>\<open>dimensions\<close>, \<^verbatim>\<open>waypoints\<close>:
  floating point), the open property bag (\<^verbatim>\<open>Dict[str, Any]\<close>) and the
  \<^verbatim>\<open>datetime\<close> fields are left out: no operation modelled below reads or writes them.
  The field \<^verbatim>\<open>id\<close> is called \<open>elem_id\<close> here, since \<open>id\<close> is the identity function
  of HOL; fields whose names occur in several classes carry a prefix of their class.
\<close>

subsection \<open>base.py\<close>

datatype BPMNElementType =
    ET_PROCESS | ET_TASK | ET_EVENT | ET_GATEWAY | ET_SUBPROCESS | ET_CALL_ACTIVITY
  | ET_SEQUENCE_FLOW | ET_MESSAGE_FLOW | ET_ASSOCIATION
  | ET_POOL | ET_LANE
  | ET_DATA_OBJECT | ET_DATA_STORE | ET_GROUP | ET_TEXT_ANNOTATION

record BPMNElement =
  elem_id :: string
  name :: "string option"
  element_type :: BPMNElementType
  documentation :: "string option"

subsection \<open>events.py\<close>

datatype EventType = START | INTERMEDIATE | BOUNDARY | END

datatype EventDefinition =
    ED_NONE | ED_MESSAGE | ED_TIMER | ED_ERROR | ED_ESCALATION | ED_CANCEL
  | ED_COMPENSATION | ED_CONDITIONAL | ED_LINK | ED_SIGNAL | ED_TERMINATE
  | ED_MULTIPLE | ED_PARALLEL_MULTIPLE

record Event = BPMNElement +
  event_type :: EventType
  event_definition :: EventDefinition
  is_interrupting :: bool
  is_throwing :: bool
  trigger :: "string option"
  attached_to_ref :: "string option"
  cancel_activity :: bool

text \<open>\<^verbatim>\<open>Event(id=i)\<close> with every other field at its declared default.\<close>

definition Event_init :: "string \<Rightarrow> Event" where
  "Event_init i =
     \<lparr> elem_id = i, name = None, element_type = ET_EVENT, documentation = None,
       event_type = START, event_definition = ED_NONE, is_interrupting = True,
       is_throwing = False, trigger = None, attached_to_ref = None,
       cancel_activity = True \<rparr>"

definition is_start_event :: "Event \<Rightarrow> bool" where
  "is_start_event e = (event_type e = START)"

definition is_end_event :: "Event \<Rightarrow> bool" where
  "is_end_event e = (event_type e = END)"

definition is_boundary_event :: "Event \<Rightarrow> bool" where
  "is_boundary_event e = (event_type e = BOUNDARY)"

text \<open>
  \<^verbatim>\<open>attach_to_activity(self, activity_id, interrupting=True)\<close>: three assignments in the
  order of the source. The default of the optional parameter is a constant of its own.
\<close>

definition attach_to_activity_default_interrupting :: bool where
  "attach_to_activity_default_interrupting = True"

definition attach_to_activity :: "string \<Rightarrow> bool \<Rightarrow> Event \<Rightarrow> Event" where
  "attach_to_activity activity_id interrupting self =
     (let self = self\<lparr>event_type := BOUNDARY\<rparr>;
          self = self\<lparr>attached_to_ref := Some activity_id\<rparr>;
          self = self\<lparr>is_interrupting := interrupting\<rparr>
      in self)"

subsection \<open>activities.py\<close>

datatype TaskType =
    TT_TASK | USER_TASK | SERVICE_TASK | MANUAL_TASK | SCRIPT_TASK
  | BUSINESS_RULE_TASK | SEND_TASK | RECEIVE_TASK

datatype SubProcessType = EMBEDDED | SPT_EVENT | SPT_CALL_ACTIVITY | TRANSACTION | SPT_AD_HOC

datatype ActivityMarker =
    LOOP | PARALLEL_MULTI_INSTANCE | SEQUENTIAL_MULTI_INSTANCE | AM_COMPENSATION | AM_AD_HOC

record Task = BPMNElement +
  task_type :: TaskType
  markers :: "ActivityMarker list"
  assignee :: "string option"
  candidate_groups :: "string list"
  candidate_users :: "string list"
  priority :: "int option"
  form_key :: "string option"
  implementation :: "string option"
  operation_ref :: "string option"
  script :: "string option"
  script_format :: "string option"
  message_ref :: "string option"
  operation :: "string option"
  instantiate :: bool
  rule_implementation :: "string option"
  decision_ref :: "string option"
  is_sequential :: bool
  loop_cardinality :: "string option"
  completion_condition :: "string option"
  collection :: "string option"
  element_variable :: "string option"

definition Task_init :: "string \<Rightarrow> Task" where
  "Task_init i =
     \<lparr> elem_id = i, name = None, element_type = ET_TASK, documentation = None,
       task_type = TT_TASK, markers = [], assignee = None, candidate_groups = [],
       candidate_users = [], priority = None, form_key = None, implementation = None,
       operation_ref = None, script = None, script_format = None, message_ref = None,
       operation = None, instantiate = False, rule_implementation = None,
       decision_ref = None, is_sequential = False, loop_cardinality = None,
       completion_condition = None, collection = None, element_variable = None \<rparr>"

definition is_multi_instance :: "Task \<Rightarrow> bool" where
  "is_multi_instance t =
     (PARALLEL_MULTI_INSTANCE \<in> set (markers t) \<or> SEQUENTIAL_MULTI_INSTANCE \<in> set (markers t))"

definition is_parallel_multi_instance :: "Task \<Rightarrow> bool" where
  "is_parallel_multi_instance t = (PARALLEL_MULTI_INSTANCE \<in> set (markers t))"

definition is_sequential_multi_instance :: "Task \<Rightarrow> bool" where
  "is_sequential_multi_instance t = (SEQUENTIAL_MULTI_INSTANCE \<in> set (markers t))"

text \<open>
  \<^verbatim>\<open>set_multi_instance_parallel(self, collection, element_variable="item")\<close> and its
  sequential sibling: \<^verbatim>\<open>markers.append\<close>, then three assignments.
\<close>

definition set_multi_instance_default_element_variable :: string where
  "set_multi_instance_default_element_variable = ''item''"

definition set_multi_instance_parallel :: "string \<Rightarrow> string \<Rightarrow> Task \<Rightarrow> Task" where
  "set_multi_instance_parallel coll elem_var self =
     (let self = self\<lparr>markers := markers self @ [PARALLEL_MULTI_INSTANCE]\<rparr>;
          self = self\<lparr>collection := Some coll\<rparr>;
          self = self\<lparr>element_variable := Some elem_var\<rparr>;
          self = self\<lparr>is_sequential := False\<rparr>
      in self)"

definition set_multi_instance_sequential :: "string \<Rightarrow> string \<Rightarrow> Task \<Rightarrow> Task" where
  "set_multi_instance_sequential coll elem_var self =
     (let self = self\<lparr>markers := markers self @ [SEQUENTIAL_MULTI_INSTANCE]\<rparr>;
          self = self\<lparr>collection := Some coll\<rparr>;
          self = self\<lparr>element_variable := Some elem_var\<rparr>;
          self = self\<lparr>is_sequential := True\<rparr>
      in self)"

subsection \<open>flows.py\<close>

record SequenceFlow = BPMNElement +
  source_ref :: string
  target_ref :: string
  condition_expression :: "string option"
  is_immediate :: bool

definition SequenceFlow_init :: "string \<Rightarrow> string \<Rightarrow> string \<Rightarrow> SequenceFlow" where
  "SequenceFlow_init i src tgt =
     \<lparr> elem_id = i, name = None, element_type = ET_SEQUENCE_FLOW, documentation = None,
       source_ref = src, target_ref = tgt, condition_expression = None,
       is_immediate = False \<rparr>"

record MessageFlow = BPMNElement +
  mf_source_ref :: string
  mf_target_ref :: string
  mf_message_ref :: "string option"

datatype AssociationDirection = AD_none | AD_one | AD_both

record Association = BPMNElement +
  as_source_ref :: string
  as_target_ref :: string
  association_direction :: AssociationDirection

subsection \<open>artifacts.py\<close>

record DataObject = BPMNElement +
  is_collection :: bool
  do_item_subject_ref :: "string option"
  state :: "string option"

record DataStore = BPMNElement +
  capacity :: "int option"
  is_unlimited :: bool
  ds_item_subject_ref :: "string option"

record Group = BPMNElement +
  category_value_ref :: "string option"

record TextAnnotation = BPMNElement +
  ta_text :: string
  text_format :: string

subsection \<open>activities.py: SubProcess\<close>

datatype CalledElementType = CET_process | CET_global_task

datatype AdHocOrdering = AO_parallel | AO_sequential

text \<open>
  \<^verbatim>\<open>SubProcess.elements\<close> is a \<^verbatim>\<open>List[Union[Task, Event, SubProcess]]\<close>: the union is
  \<open>SubElement\<close>, mutually recursive with \<open>SubProcess\<close>.
\<close>

datatype SubProcess = SubProcess
    (sp_base: BPMNElement)
    (subprocess_type: SubProcessType)
    (is_expanded: bool)
    (triggered_by_event: bool)
    (is_for_compensation: bool)
    (sp_markers: "ActivityMarker list")
    (called_element: "string option")
    (called_element_type: "CalledElementType option")
    (transaction_method: "string option")
    (ordering: "AdHocOrdering option")
    (cancel_remaining_instances: bool)
    (elements: "SubElement list")
    (sp_sequence_flows: "SequenceFlow list")
    (boundary_events: "Event list")
and SubElement = SubTask Task | SubEvent Event | SubSubProcess SubProcess

definition sp_id :: "SubProcess \<Rightarrow> string" where
  "sp_id sp = elem_id (sp_base sp)"

text \<open>
  \<^verbatim>\<open>SubProcess(id=i, subprocess_type=t)\<close>: the constructor picks the element type from
  the subprocess type.
\<close>

definition SubProcess_init :: "string \<Rightarrow> SubProcessType \<Rightarrow> SubProcess" where
  "SubProcess_init i t =
     SubProcess
       \<lparr> elem_id = i, name = None,
         element_type = (if t = SPT_CALL_ACTIVITY then ET_CALL_ACTIVITY else ET_SUBPROCESS),
         documentation = None \<rparr>
       t True False False [] None None None None True [] [] []"

definition add_element :: "SubElement \<Rightarrow> SubProcess \<Rightarrow> SubProcess" where
  "add_element element self =
     (case self of SubProcess b ty ex tr fc mk ce cet me ord cri els sfs bes \<Rightarrow>
        SubProcess b ty ex tr fc mk ce cet me ord cri (els @ [element]) sfs bes)"

definition add_sequence_flow :: "SequenceFlow \<Rightarrow> SubProcess \<Rightarrow> SubProcess" where
  "add_sequence_flow flow self =
     (case self of SubProcess b ty ex tr fc mk ce cet me ord cri els sfs bes \<Rightarrow>
        SubProcess b ty ex tr fc mk ce cet me ord cri els (sfs @ [flow]) bes)"

text \<open>
  \<^verbatim>\<open>add_boundary_event(self, event)\<close> mutates the event it is given and then stores that
  same object: the model returns the event as the caller sees it afterwards, together
  with the updated sub-process. The call \<^verbatim>\<open>event.attach_to_activity(self.id)\<close> passes no
  second argument, so the parameter takes its default.
\<close>

definition add_boundary_event :: "Event \<Rightarrow> SubProcess \<Rightarrow> Event \<times> SubProcess" where
  "add_boundary_event event self =
     (let event = attach_to_activity (sp_id self) attach_to_activity_default_interrupting event
      in (event,
          case self of SubProcess b ty ex tr fc mk ce cet me ord cri els sfs bes \<Rightarrow>
            SubProcess b ty ex tr fc mk ce cet me ord cri els sfs (bes @ [event])))"

subsection \<open>gateways.py\<close>

datatype GatewayType =
    EXCLUSIVE | INCLUSIVE | PARALLEL | COMPLEX
  | EVENT_BASED | EXCLUSIVE_EVENT_BASED | PARALLEL_EVENT_BASED

text \<open>The \<^verbatim>\<open>.value\<close> of each member of the enumeration.\<close>

fun GatewayType_value :: "GatewayType \<Rightarrow> string" where
  "GatewayType_value EXCLUSIVE = ''exclusive''"
| "GatewayType_value INCLUSIVE = ''inclusive''"
| "GatewayType_value PARALLEL = ''parallel''"
| "GatewayType_value COMPLEX = ''complex''"
| "GatewayType_value EVENT_BASED = ''event_based''"
| "GatewayType_value EXCLUSIVE_EVENT_BASED = ''exclusive_event_based''"
| "GatewayType_value PARALLEL_EVENT_BASED = ''parallel_event_based''"

text \<open>
  How the attribute \<^verbatim>\<open>gateway_type\<close> is stored. The \<^verbatim>\<open>Config\<close> of the class sets
  \<^verbatim>\<open>use_enum_values = True\<close> and \<^verbatim>\<open>validate_assignment = True\<close>: a kind given to the
  constructor, or assigned later, is validated and stored as the plain string that is
  the value of the member. Only the declared default, which is not validated, stays
  the member itself. The enumeration derives from \<^verbatim>\<open>str\<close>, so a comparison with a
  member by \<^verbatim>\<open>==\<close> gives the same answer for both forms; the attribute \<^verbatim>\<open>.value\<close>
  exists on a member only. The other enumeration-typed fields of the model are only
  ever compared, never asked for \<^verbatim>\<open>.value\<close>, and are kept as plain members.
\<close>

datatype GatewayTypeAttr = EnumMember GatewayType | PlainStr GatewayType

fun kind_of :: "GatewayTypeAttr \<Rightarrow> GatewayType" where
  "kind_of (EnumMember k) = k"
| "kind_of (PlainStr k) = k"

datatype GatewayDirection = unspecified | converging | diverging | mixed

datatype EventGatewayType = EGT_exclusive | EGT_parallel

record Gateway = BPMNElement +
  gateway_type :: GatewayTypeAttr
  gateway_direction :: GatewayDirection
  default_flow :: "string option"
  gw_instantiate :: bool
  event_gateway_type :: "EventGatewayType option"

text \<open>
  \<^verbatim>\<open>Gateway(id=i)\<close> leaves the kind at its default, the member \<^verbatim>\<open>EXCLUSIVE\<close>;
  \<^verbatim>\<open>Gateway(id=i, gateway_type=k)\<close> stores the validated kind.
\<close>

definition Gateway_init :: "string \<Rightarrow> Gateway" where
  "Gateway_init i =
     \<lparr> elem_id = i, name = None, element_type = ET_GATEWAY, documentation = None,
       gateway_type = EnumMember EXCLUSIVE, gateway_direction = unspecified,
       default_flow = None, gw_instantiate = False, event_gateway_type = None \<rparr>"

definition Gateway_init_kind :: "string \<Rightarrow> GatewayType \<Rightarrow> Gateway" where
  "Gateway_init_kind i k = (Gateway_init i)\<lparr>gateway_type := PlainStr k\<rparr>"

definition is_exclusive :: "Gateway \<Rightarrow> bool" where
  "is_exclusive g = (kind_of (gateway_type g) = EXCLUSIVE)"

definition is_inclusive :: "Gateway \<Rightarrow> bool" where
  "is_inclusive g = (kind_of (gateway_type g) = INCLUSIVE)"

definition is_parallel :: "Gateway \<Rightarrow> bool" where
  "is_parallel g = (kind_of (gateway_type g) = PARALLEL)"

definition is_complex :: "Gateway \<Rightarrow> bool" where
  "is_complex g = (kind_of (gateway_type g) = COMPLEX)"

definition is_event_based :: "Gateway \<Rightarrow> bool" where
  "is_event_based g =
     (kind_of (gateway_type g)
        \<in> set [EVENT_BASED, EXCLUSIVE_EVENT_BASED, PARALLEL_EVENT_BASED])"

definition is_diverging :: "Gateway \<Rightarrow> bool" where
  "is_diverging g = (gateway_direction g = diverging)"

definition is_converging :: "Gateway \<Rightarrow> bool" where
  "is_converging g = (gateway_direction g = converging)"

definition is_mixed :: "Gateway \<Rightarrow> bool" where
  "is_mixed g = (gateway_direction g = mixed)"

text \<open>
  Exceptions are values. A mutator that may raise returns the outcome of the call
  (\<open>Inl\<close> the exception, \<open>Inr ()\<close> a normal return) together with the object as it is
  after the call, so that what a failed call leaves behind can be stated.
\<close>

text \<open>
  \<open>AttributeError ty a\<close> is Python's complaint that an object of type \<open>ty\<close> has no
  attribute \<open>a\<close>.
\<close>

datatype error = ValueError string | NotImplementedError | AttributeError string string

text \<open>The expression \<^verbatim>\<open>self.gateway_type.value\<close>.\<close>

fun gateway_type_value :: "GatewayTypeAttr \<Rightarrow> error + string" where
  "gateway_type_value (EnumMember k) = Inr (GatewayType_value k)"
| "gateway_type_value (PlainStr k) = Inl (AttributeError ''str'' ''value'')"

text \<open>
  \<^verbatim>\<open>set_default_flow\<close>: in the \<^verbatim>\<open>else\<close> branch the message of the \<^verbatim>\<open>ValueError\<close> is
  built first, from \<^verbatim>\<open>self.gateway_type.value\<close>; an exception raised there is the one
  that leaves the call.
\<close>

definition set_default_flow :: "string \<Rightarrow> Gateway \<Rightarrow> (error + unit) \<times> Gateway" where
  "set_default_flow flow_id self =
     (if is_exclusive self \<or> is_inclusive self
      then (Inr (), self\<lparr>default_flow := Some flow_id\<rparr>)
      else (case gateway_type_value (gateway_type self) of
              Inl e \<Rightarrow> (Inl e, self)
            | Inr v \<Rightarrow>
                (Inl (ValueError (''Default flow not supported for '' @ v @ '' gateway'')),
                 self)))"

definition enable_process_instantiation :: "Gateway \<Rightarrow> (error + unit) \<times> Gateway" where
  "enable_process_instantiation self =
     (if is_event_based self
      then (Inr (), self\<lparr>gw_instantiate := True\<rparr>)
      else (Inl (ValueError ''Process instantiation only supported for event-based gateways''),
            self))"

subsection \<open>swimlanes.py\<close>

datatype Lane = Lane
    (lane_base: BPMNElement)
    (flow_node_refs: "string list")
    (child_lanes: "Lane list")
    (partition_element_ref: "string option")

definition lane_id :: "Lane \<Rightarrow> string" where
  "lane_id l = elem_id (lane_base l)"

definition Lane_init :: "string \<Rightarrow> Lane" where
  "Lane_init i =
     Lane \<lparr> elem_id = i, name = None, element_type = ET_LANE, documentation = None \<rparr>
       [] [] None"

definition add_child_lane :: "Lane \<Rightarrow> Lane \<Rightarrow> Lane" where
  "add_child_lane lane self =
     (case self of Lane b refs cs per \<Rightarrow> Lane b refs (cs @ [lane]) per)"

record Pool = BPMNElement +
  pool_is_executable :: bool
  process_ref :: "string option"
  pool_lanes :: "Lane list"
  participant_multiplicity :: "int option"
  is_horizontal :: bool

definition Pool_init :: "string \<Rightarrow> Pool" where
  "Pool_init i =
     \<lparr> elem_id = i, name = None, element_type = ET_POOL, documentation = None,
       pool_is_executable = False, process_ref = None, pool_lanes = [],
       participant_multiplicity = None, is_horizontal = True \<rparr>"

section \<open>Containers and reference resolution (processes.py)\<close>

text \<open>
  A Python list of \<^verbatim>\<open>BPMNElement\<close> holds objects of any subclass; \<open>Element\<close> is that
  union, one constructor per class, and \<open>id_of\<close> reads the \<^verbatim>\<open>id\<close> attribute.
  \<^verbatim>\<open>isinstance(x, Task)\<close> is the test for the constructor \<open>TaskE\<close>: no modelled class
  derives from another one, only from the base.
\<close>

datatype Element =
    EventE Event | TaskE Task | GatewayE Gateway | SubProcessE SubProcess
  | SequenceFlowE SequenceFlow | AssociationE Association
  | DataObjectE DataObject | DataStoreE DataStore | GroupE Group
  | TextAnnotationE TextAnnotation | LaneE Lane
  | PoolE Pool | MessageFlowE MessageFlow

fun id_of :: "Element \<Rightarrow> string" where
  "id_of (EventE x) = elem_id x"
| "id_of (TaskE x) = elem_id x"
| "id_of (GatewayE x) = elem_id x"
| "id_of (SubProcessE x) = sp_id x"
| "id_of (SequenceFlowE x) = elem_id x"
| "id_of (AssociationE x) = elem_id x"
| "id_of (DataObjectE x) = elem_id x"
| "id_of (DataStoreE x) = elem_id x"
| "id_of (GroupE x) = elem_id x"
| "id_of (TextAnnotationE x) = elem_id x"
| "id_of (LaneE x) = lane_id x"
| "id_of (PoolE x) = elem_id x"
| "id_of (MessageFlowE x) = elem_id x"

datatype ProcessType = PT_none | PT_public | PT_private

record Process = BPMNElement +
  is_executable :: bool
  is_closed :: bool
  process_type :: ProcessType
  definitional_collaboration_ref :: "string option"
  events :: "Event list"
  tasks :: "Task list"
  gateways :: "Gateway list"
  subprocesses :: "SubProcess list"
  sequence_flows :: "SequenceFlow list"
  associations :: "Association list"
  data_objects :: "DataObject list"
  data_stores :: "DataStore list"
  groups :: "Group list"
  text_annotations :: "TextAnnotation list"
  lanes :: "Lane list"

definition Process_init :: "string \<Rightarrow> Process" where
  "Process_init i =
     \<lparr> elem_id = i, name = None, element_type = ET_PROCESS, documentation = None,
       is_executable = False, is_closed = False, process_type = PT_none,
       definitional_collaboration_ref = None,
       events = [], tasks = [], gateways = [], subprocesses = [],
       sequence_flows = [], associations = [],
       data_objects = [], data_stores = [], groups = [], text_annotations = [],
       lanes = [] \<rparr>"

definition get_all_elements :: "Process \<Rightarrow> Element list" where
  "get_all_elements self =
     map EventE (events self) @ map TaskE (tasks self) @ map GatewayE (gateways self)
     @ map SubProcessE (subprocesses self)
     @ map SequenceFlowE (sequence_flows self) @ map AssociationE (associations self)
     @ map DataObjectE (data_objects self)
     @ map DataStoreE (data_stores self) @ map GroupE (groups self)
     @ map TextAnnotationE (text_annotations self) @ map LaneE (lanes self)"

definition get_all_flow_objects :: "Process \<Rightarrow> Element list" where
  "get_all_flow_objects self =
     map EventE (events self) @ map TaskE (tasks self) @ map GatewayE (gateways self)
     @ map SubProcessE (subprocesses self)"

text \<open>
  \<^verbatim>\<open>for element in ...: if element.id == element_id: return element\<close>, and
  \<^verbatim>\<open>return None\<close> after the loop.
\<close>

fun scan_elements :: "string \<Rightarrow> Element list \<Rightarrow> Element option" where
  "scan_elements element_id [] = None"
| "scan_elements element_id (element # rest) =
     (if id_of element = element_id then Some element else scan_elements element_id rest)"

definition Process_get_element_by_id :: "Process \<Rightarrow> string \<Rightarrow> Element option" where
  "Process_get_element_by_id self element_id = scan_elements element_id (get_all_elements self)"

definition get_start_events :: "Process \<Rightarrow> Event list" where
  "get_start_events self = [event \<leftarrow> events self. is_start_event event]"

definition get_end_events :: "Process \<Rightarrow> Event list" where
  "get_end_events self = [event \<leftarrow> events self. is_end_event event]"

record BPMNDiagram =
  diagram_id :: string
  diagram_name :: "string option"
  target_namespace :: string
  processes :: "Process list"
  pools :: "Pool list"
  message_flows :: "MessageFlow list"
  global_data_stores :: "DataStore list"
  global_text_annotations :: "TextAnnotation list"
  created_by :: "string option"
  version :: string

definition BPMNDiagram_init :: "string \<Rightarrow> BPMNDiagram" where
  "BPMNDiagram_init i =
     \<lparr> diagram_id = i, diagram_name = None,
       target_namespace = ''http://bpmn.io/schema/bpmn'',
       processes = [], pools = [], message_flows = [],
       global_data_stores = [], global_text_annotations = [],
       created_by = None, version = ''1.0'' \<rparr>"

definition add_process :: "Process \<Rightarrow> BPMNDiagram \<Rightarrow> BPMNDiagram" where
  "add_process process self = self\<lparr>processes := processes self @ [process]\<rparr>"

definition add_pool :: "Pool \<Rightarrow> BPMNDiagram \<Rightarrow> BPMNDiagram" where
  "add_pool pool self = self\<lparr>pools := pools self @ [pool]\<rparr>"

text \<open>
  \<^verbatim>\<open>BPMNDiagram.get_element_by_id\<close>: five loops in sequence, each returning from the
  function at its first match. Each loop is a recursive function that yields \<open>None\<close>
  when the loop runs to its end. The test \<^verbatim>\<open>if element:\<close> on the result of the
  process-level lookup is the test for \<open>Some\<close>: a model object is always truthy.
\<close>

fun search_processes :: "string \<Rightarrow> Process list \<Rightarrow> Element option" where
  "search_processes element_id [] = None"
| "search_processes element_id (process # rest) =
     (case Process_get_element_by_id process element_id of
        Some element \<Rightarrow> Some element
      | None \<Rightarrow> search_processes element_id rest)"

fun search_lanes :: "string \<Rightarrow> Lane list \<Rightarrow> Element option" where
  "search_lanes element_id [] = None"
| "search_lanes element_id (lane # rest) =
     (if lane_id lane = element_id then Some (LaneE lane) else search_lanes element_id rest)"

fun search_pools :: "string \<Rightarrow> Pool list \<Rightarrow> Element option" where
  "search_pools element_id [] = None"
| "search_pools element_id (pool # rest) =
     (if elem_id pool = element_id then Some (PoolE pool)
      else case search_lanes element_id (pool_lanes pool) of
             Some lane \<Rightarrow> Some lane
           | None \<Rightarrow> search_pools element_id rest)"

fun search_message_flows :: "string \<Rightarrow> MessageFlow list \<Rightarrow> Element option" where
  "search_message_flows element_id [] = None"
| "search_message_flows element_id (message_flow # rest) =
     (if elem_id message_flow = element_id then Some (MessageFlowE message_flow)
      else search_message_flows element_id rest)"

fun search_data_stores :: "string \<Rightarrow> DataStore list \<Rightarrow> Element option" where
  "search_data_stores element_id [] = None"
| "search_data_stores element_id (data_store # rest) =
     (if elem_id data_store = element_id then Some (DataStoreE data_store)
      else search_data_stores element_id rest)"

fun search_annotations :: "string \<Rightarrow> TextAnnotation list \<Rightarrow> Element option" where
  "search_annotations element_id [] = None"
| "search_annotations element_id (annotation # rest) =
     (if elem_id annotation = element_id then Some (TextAnnotationE annotation)
      else search_annotations element_id rest)"

definition BPMNDiagram_get_element_by_id :: "BPMNDiagram \<Rightarrow> string \<Rightarrow> Element option" where
  "BPMNDiagram_get_element_by_id self element_id =
     (case search_processes element_id (processes self) of
        Some element \<Rightarrow> Some element
      | None \<Rightarrow>
     (case search_pools element_id (pools self) of
        Some element \<Rightarrow> Some element
      | None \<Rightarrow>
     (case search_message_flows element_id (message_flows self) of
        Some element \<Rightarrow> Some element
      | None \<Rightarrow>
     (case search_data_stores element_id (global_data_stores self) of
        Some element \<Rightarrow> Some element
      | None \<Rightarrow> search_annotations element_id (global_text_annotations self)))))"

section \<open>Validation rule engine (validators.py)\<close>

datatype ValidationSeverity = ERROR | WARNING | INFO

record ValidationResult =
  severity :: ValidationSeverity
  res_element_id :: "string option"
  res_element_type :: "string option"
  message :: string
  rule_name :: string

text \<open>Decimal rendering of a length, as an f-string prints it.\<close>

definition digit_char :: "nat \<Rightarrow> char" where
  "digit_char d = ''0123456789'' ! d"

function str_of_nat :: "nat \<Rightarrow> string" where
  "str_of_nat n =
     (if n < 10 then [digit_char n] else str_of_nat (n div 10) @ [digit_char (n mod 10)])"
  by pat_completeness auto
termination
  by (relation "measure (\<lambda>n. n)") auto

text \<open>
  A rule object carries its \<^verbatim>\<open>name\<close> and \<^verbatim>\<open>severity\<close> attributes and its class,
  which decides what \<^verbatim>\<open>validate\<close> does. The base class raises
  \<^verbatim>\<open>NotImplementedError\<close>; a caller-defined subclass is any function from the diagram
  to findings or an exception. Such a function reads the diagram and nothing else.
\<close>

datatype RuleClass =
    StartEventRule | EndEventRule | SequenceFlowRule | GatewayRule
  | ValidationRuleBase
  | CustomRule "BPMNDiagram \<Rightarrow> error + ValidationResult list"

record ValidationRule =
  vrule_name :: string
  vrule_severity :: ValidationSeverity
  vrule_class :: RuleClass

text \<open>
  The constructors of the four built-in rules: each passes only its name to the base
  constructor, whose severity parameter defaults to \<^verbatim>\<open>ERROR\<close>.
\<close>

definition StartEventRule_init :: ValidationRule where
  "StartEventRule_init =
     \<lparr> vrule_name = ''start_event_rule'', vrule_severity = ERROR, vrule_class = StartEventRule \<rparr>"

definition EndEventRule_init :: ValidationRule where
  "EndEventRule_init =
     \<lparr> vrule_name = ''end_event_rule'', vrule_severity = ERROR, vrule_class = EndEventRule \<rparr>"

definition SequenceFlowRule_init :: ValidationRule where
  "SequenceFlowRule_init =
     \<lparr> vrule_name = ''sequence_flow_rule'', vrule_severity = ERROR,
       vrule_class = SequenceFlowRule \<rparr>"

definition GatewayRule_init :: ValidationRule where
  "GatewayRule_init =
     \<lparr> vrule_name = ''gateway_rule'', vrule_severity = ERROR, vrule_class = GatewayRule \<rparr>"

text \<open>
  Each \<^verbatim>\<open>validate\<close> starts from \<^verbatim>\<open>results = []\<close> and appends inside \<^verbatim>\<open>for\<close> loops:
  a \<open>fold\<close> over the list that threads \<open>results\<close>.
\<close>

definition StartEventRule_validate :: "ValidationRule \<Rightarrow> BPMNDiagram \<Rightarrow> ValidationResult list" where
  "StartEventRule_validate self diagram =
     fold (\<lambda>process results.
        let start_events = get_start_events process in
        if length start_events = 0 then
          results @ [\<lparr> severity = vrule_severity self,
                       res_element_id = Some (elem_id process),
                       res_element_type = Some ''Process'',
                       message = ''Process must have at least one start event'',
                       rule_name = vrule_name self \<rparr>]
        else if length start_events > 1 then
          results @ [\<lparr> severity = WARNING,
                       res_element_id = Some (elem_id process),
                       res_element_type = Some ''Process'',
                       message = ''Process has '' @ str_of_nat (length start_events)
                         @ '' start events (multiple start events should be used carefully)'',
                       rule_name = vrule_name self \<rparr>]
        else results)
       (processes diagram) []"

definition EndEventRule_validate :: "ValidationRule \<Rightarrow> BPMNDiagram \<Rightarrow> ValidationResult list" where
  "EndEventRule_validate self diagram =
     fold (\<lambda>process results.
        let end_events = get_end_events process in
        if length end_events = 0 then
          results @ [\<lparr> severity = WARNING,
                       res_element_id = Some (elem_id process),
                       res_element_type = Some ''Process'',
                       message = ''Process should have at least one end event'',
                       rule_name = vrule_name self \<rparr>]
        else results)
       (processes diagram) []"

text \<open>
  \<^verbatim>\<open>isinstance(flow_obj, Event) and flow_obj.is_start_event()\<close>, its sibling for end
  events, and \<^verbatim>\<open>isinstance(flow_obj, Task)\<close>.
\<close>

fun is_Event_and_start :: "Element \<Rightarrow> bool" where
  "is_Event_and_start (EventE e) = is_start_event e"
| "is_Event_and_start _ = False"

fun is_Event_and_end :: "Element \<Rightarrow> bool" where
  "is_Event_and_end (EventE e) = is_end_event e"
| "is_Event_and_end _ = False"

fun isinstance_Task :: "Element \<Rightarrow> bool" where
  "isinstance_Task (TaskE t) = True"
| "isinstance_Task _ = False"

text \<open>The body of the inner loop of \<^verbatim>\<open>SequenceFlowRule.validate\<close>: three \<^verbatim>\<open>if\<close> in a row.\<close>

definition SequenceFlowRule_body ::
  "ValidationRule \<Rightarrow> Process \<Rightarrow> Element \<Rightarrow> ValidationResult list \<Rightarrow> ValidationResult list" where
  "SequenceFlowRule_body self process flow_obj results =
     (let incoming_flows = [f \<leftarrow> sequence_flows process. target_ref f = id_of flow_obj];
          outgoing_flows = [f \<leftarrow> sequence_flows process. source_ref f = id_of flow_obj];
          results =
            (if is_Event_and_start flow_obj \<and> incoming_flows \<noteq> [] then
               results @ [\<lparr> severity = vrule_severity self,
                            res_element_id = Some (id_of flow_obj),
                            res_element_type = Some ''StartEvent'',
                            message = ''Start events cannot have incoming sequence flows'',
                            rule_name = vrule_name self \<rparr>]
             else results);
          results =
            (if is_Event_and_end flow_obj \<and> outgoing_flows \<noteq> [] then
               results @ [\<lparr> severity = vrule_severity self,
                            res_element_id = Some (id_of flow_obj),
                            res_element_type = Some ''EndEvent'',
                            message = ''End events cannot have outgoing sequence flows'',
                            rule_name = vrule_name self \<rparr>]
             else results);
          results =
            (if isinstance_Task flow_obj \<and> incoming_flows = [] \<and> outgoing_flows = [] then
               results @ [\<lparr> severity = WARNING,
                            res_element_id = Some (id_of flow_obj),
                            res_element_type = Some ''Task'',
                            message = ''Task is not connected to any sequence flows'',
                            rule_name = vrule_name self \<rparr>]
             else results)
      in results)"

definition SequenceFlowRule_validate :: "ValidationRule \<Rightarrow> BPMNDiagram \<Rightarrow> ValidationResult list" where
  "SequenceFlowRule_validate self diagram =
     fold (\<lambda>process results.
        let flow_objects = get_all_flow_objects process in
        fold (SequenceFlowRule_body self process) flow_objects results)
       (processes diagram) []"

text \<open>The body of the inner loop of \<^verbatim>\<open>GatewayRule.validate\<close>: four \<^verbatim>\<open>if\<close> in a row.\<close>

definition GatewayRule_body ::
  "ValidationRule \<Rightarrow> Process \<Rightarrow> Gateway \<Rightarrow> ValidationResult list \<Rightarrow> ValidationResult list" where
  "GatewayRule_body self process gateway results =
     (let incoming_flows = [f \<leftarrow> sequence_flows process. target_ref f = elem_id gateway];
          outgoing_flows = [f \<leftarrow> sequence_flows process. source_ref f = elem_id gateway];
          results =
            (if length incoming_flows = 0 then
               results @ [\<lparr> severity = vrule_severity self,
                            res_element_id = Some (elem_id gateway),
                            res_element_type = Some ''Gateway'',
                            message = ''Gateway must have at least one incoming sequence flow'',
                            rule_name = vrule_name self \<rparr>]
             else results);
          results =
            (if length outgoing_flows = 0 then
               results @ [\<lparr> severity = vrule_severity self,
                            res_element_id = Some (elem_id gateway),
                            res_element_type = Some ''Gateway'',
                            message = ''Gateway must have at least one outgoing sequence flow'',
                            rule_name = vrule_name self \<rparr>]
             else results);
          results =
            (if is_diverging gateway \<and> length outgoing_flows < 2 then
               results @ [\<lparr> severity = WARNING,
                            res_element_id = Some (elem_id gateway),
                            res_element_type = Some ''Gateway'',
                            message = ''Diverging gateway should have multiple outgoing flows'',
                            rule_name = vrule_name self \<rparr>]
             else results);
          results =
            (if is_converging gateway \<and> length incoming_flows < 2 then
               results @ [\<lparr> severity = WARNING,
                            res_element_id = Some (elem_id gateway),
                            res_element_type = Some ''Gateway'',
                            message = ''Converging gateway should have multiple incoming flows'',
                            rule_name = vrule_name self \<rparr>]
             else results)
      in results)"

definition GatewayRule_validate :: "ValidationRule \<Rightarrow> BPMNDiagram \<Rightarrow> ValidationResult list" where
  "GatewayRule_validate self diagram =
     fold (\<lambda>process results. fold (GatewayRule_body self process) (gateways process) results)
       (processes diagram) []"

text \<open>Dynamic dispatch of \<^verbatim>\<open>rule.validate(diagram)\<close> on the class of the rule.\<close>

definition rule_validate :: "ValidationRule \<Rightarrow> BPMNDiagram \<Rightarrow> error + ValidationResult list" where
  "rule_validate self diagram =
     (case vrule_class self of
        StartEventRule \<Rightarrow> Inr (StartEventRule_validate self diagram)
      | EndEventRule \<Rightarrow> Inr (EndEventRule_validate self diagram)
      | SequenceFlowRule \<Rightarrow> Inr (SequenceFlowRule_validate self diagram)
      | GatewayRule \<Rightarrow> Inr (GatewayRule_validate self diagram)
      | ValidationRuleBase \<Rightarrow> Inl NotImplementedError
      | CustomRule f \<Rightarrow> f diagram)"

record BPMNValidator =
  diagram :: BPMNDiagram
  rules :: "ValidationRule list"
  results :: "ValidationResult list"

definition BPMNValidator_init :: "BPMNDiagram \<Rightarrow> BPMNValidator" where
  "BPMNValidator_init d =
     \<lparr> diagram = d,
       rules = [StartEventRule_init, EndEventRule_init, SequenceFlowRule_init, GatewayRule_init],
       results = [] \<rparr>"

definition add_rule :: "ValidationRule \<Rightarrow> BPMNValidator \<Rightarrow> BPMNValidator" where
  "add_rule rule self = self\<lparr>rules := rules self @ [rule]\<rparr>"

text \<open>
  The loop of \<^verbatim>\<open>BPMNValidator.validate\<close> over \<^verbatim>\<open>self.rules\<close>, extending
  \<^verbatim>\<open>self.results\<close>. An exception raised by a rule leaves the loop at once, with the
  findings gathered so far still in the buffer.
\<close>

fun run_rules ::
  "ValidationRule list \<Rightarrow> BPMNDiagram \<Rightarrow> ValidationResult list
     \<Rightarrow> error option \<times> ValidationResult list" where
  "run_rules [] d res = (None, res)"
| "run_rules (rule # rest) d res =
     (case rule_validate rule d of
        Inl e \<Rightarrow> (Some e, res)
      | Inr rule_results \<Rightarrow> run_rules rest d (res @ rule_results))"

text \<open>
  \<^verbatim>\<open>validate\<close> returns the outcome (\<open>Inl\<close> an exception passed on from a rule,
  \<open>Inr\<close> the boolean) and the validator as it is after the call.
\<close>

definition validate :: "BPMNValidator \<Rightarrow> (error + bool) \<times> BPMNValidator" where
  "validate self =
     (let self = self\<lparr>results := []\<rparr> in
      case run_rules (rules self) (diagram self) (results self) of
        (Some e, res) \<Rightarrow> (Inl e, self\<lparr>results := res\<rparr>)
      | (None, res) \<Rightarrow>
          (let self = self\<lparr>results := res\<rparr> in
           (Inr (\<not> list_ex (\<lambda>result. severity result = ERROR) (results self)), self)))"

definition get_errors :: "BPMNValidator \<Rightarrow> ValidationResult list" where
  "get_errors self = [r \<leftarrow> results self. severity r = ERROR]"

definition get_warnings :: "BPMNValidator \<Rightarrow> ValidationResult list" where
  "get_warnings self = [r \<leftarrow> results self. severity r = WARNING]"

definition has_errors :: "BPMNValidator \<Rightarrow> bool" where
  "has_errors self = list_ex (\<lambda>result. severity result = ERROR) (results self)"

definition has_warnings :: "BPMNValidator \<Rightarrow> bool" where
  "has_warnings self = list_ex (\<lambda>result. severity result = WARNING) (results self)"

section \<open>The specification's reading of scope and scan order\<close>

text \<open>
  The specification counts what a sub-process holds (its nested elements, its nested
  sequence flows, its boundary events) as lying under the scope of the process that
  owns the sub-process. \<open>spec_scope_elements\<close> is that reading, written from the
  specification's words; it is compared below with what the lookup scans.
\<close>

fun nested_of_subprocess :: "SubProcess \<Rightarrow> Element list"
and nested_of_subelement :: "SubElement \<Rightarrow> Element list" where
  "nested_of_subprocess (SubProcess b ty ex tr fc mk ce cet me ord cri els sfs bes) =
     concat (map nested_of_subelement els) @ map SequenceFlowE sfs @ map EventE bes"
| "nested_of_subelement (SubTask t) = [TaskE t]"
| "nested_of_subelement (SubEvent e) = [EventE e]"
| "nested_of_subelement (SubSubProcess sp) = SubProcessE sp # nested_of_subprocess sp"

definition spec_scope_elements :: "Process \<Rightarrow> Element list" where
  "spec_scope_elements P =
     get_all_elements P @ concat (map nested_of_subprocess (subprocesses P))"

text \<open>A lane together with every lane nested below it through \<^verbatim>\<open>child_lanes\<close>.\<close>

fun lane_with_children :: "Lane \<Rightarrow> Lane list" where
  "lane_with_children (Lane b refs cs per) =
     Lane b refs cs per # concat (map lane_with_children cs)"

text \<open>
  The order in which \<^verbatim>\<open>BPMNDiagram.get_element_by_id\<close> meets the elements: the
  elements of each process, then each pool followed by the lanes in its \<^verbatim>\<open>lanes\<close>
  list, then the message flows, the global data stores and the global annotations.
\<close>

definition diagram_scan_order :: "BPMNDiagram \<Rightarrow> Element list" where
  "diagram_scan_order D =
     concat (map get_all_elements (processes D))
     @ concat (map (\<lambda>pool. PoolE pool # map LaneE (pool_lanes pool)) (pools D))
     @ map MessageFlowE (message_flows D)
     @ map DataStoreE (global_data_stores D)
     @ map TextAnnotationE (global_text_annotations D)"

text \<open>The same order when lanes nested as child lanes are counted in, as the claim reads.\<close>

definition spec_diagram_scan_order :: "BPMNDiagram \<Rightarrow> Element list" where
  "spec_diagram_scan_order D =
     concat (map get_all_elements (processes D))
     @ concat (map (\<lambda>pool. PoolE pool
                      # map LaneE (concat (map lane_with_children (pool_lanes pool))))
               (pools D))
     @ map MessageFlowE (message_flows D)
     @ map DataStoreE (global_data_stores D)
     @ map TextAnnotationE (global_text_annotations D)"

section \<open>Example objects\<close>

text \<open>
  A process with a task \<^verbatim>\<open>t0\<close> and a sub-process \<^verbatim>\<open>sp1\<close> that holds a task \<^verbatim>\<open>t1\<close>; a
  diagram with one pool whose lane \<^verbatim>\<open>L1\<close> has a child lane \<^verbatim>\<open>L2\<close>.
\<close>

definition ex_sub :: SubProcess where
  "ex_sub = add_element (SubTask (Task_init ''t1'')) (SubProcess_init ''sp1'' EMBEDDED)"

definition ex_proc :: Process where
  "ex_proc = (Process_init ''p1'')\<lparr>tasks := [Task_init ''t0''], subprocesses := [ex_sub]\<rparr>"

definition ex_pool :: Pool where
  "ex_pool =
     (Pool_init ''pool1'')\<lparr>pool_lanes := [add_child_lane (Lane_init ''L2'') (Lane_init ''L1'')]\<rparr>"

definition ex_diag :: BPMNDiagram where
  "ex_diag = add_pool ex_pool (BPMNDiagram_init ''d1'')"

section \<open>The connectivity rule in the specification's words\<close>

text \<open>
  Per process and per flow object: the incoming and outgoing sequence flows are those
  whose \<^verbatim>\<open>target_ref\<close> or \<^verbatim>\<open>source_ref\<close> is the id of the object. A start event with
  an incoming flow gives one error, an end event with an outgoing flow gives one
  error, a task with neither incoming nor outgoing flows gives one warning, and a
  gateway or a sub-process gives nothing.
\<close>

definition incoming_flows_of :: "Process \<Rightarrow> string \<Rightarrow> SequenceFlow list" where
  "incoming_flows_of p i = [f \<leftarrow> sequence_flows p. target_ref f = i]"

definition outgoing_flows_of :: "Process \<Rightarrow> string \<Rightarrow> SequenceFlow list" where
  "outgoing_flows_of p i = [f \<leftarrow> sequence_flows p. source_ref f = i]"

definition start_incoming_error :: "string \<Rightarrow> ValidationResult" where
  "start_incoming_error i =
     \<lparr> severity = ERROR, res_element_id = Some i, res_element_type = Some ''StartEvent'',
       message = ''Start events cannot have incoming sequence flows'',
       rule_name = ''sequence_flow_rule'' \<rparr>"

definition end_outgoing_error :: "string \<Rightarrow> ValidationResult" where
  "end_outgoing_error i =
     \<lparr> severity = ERROR, res_element_id = Some i, res_element_type = Some ''EndEvent'',
       message = ''End events cannot have outgoing sequence flows'',
       rule_name = ''sequence_flow_rule'' \<rparr>"

definition isolated_task_warning :: "string \<Rightarrow> ValidationResult" where
  "isolated_task_warning i =
     \<lparr> severity = WARNING, res_element_id = Some i, res_element_type = Some ''Task'',
       message = ''Task is not connected to any sequence flows'',
       rule_name = ''sequence_flow_rule'' \<rparr>"

fun spec_connectivity :: "Process \<Rightarrow> Element \<Rightarrow> ValidationResult list" where
  "spec_connectivity p (EventE e) =
     (if event_type e = START \<and> incoming_flows_of p (elem_id e) \<noteq> []
      then [start_incoming_error (elem_id e)] else [])
     @ (if event_type e = END \<and> outgoing_flows_of p (elem_id e) \<noteq> []
        then [end_outgoing_error (elem_id e)] else [])"
| "spec_connectivity p (TaskE t) =
     (if incoming_flows_of p (elem_id t) = [] \<and> outgoing_flows_of p (elem_id t) = []
      then [isolated_task_warning (elem_id t)] else [])"
| "spec_connectivity p (GatewayE g) = []"
| "spec_connectivity p (SubProcessE s) = []"
| "spec_connectivity p _ = []"

definition spec_connectivity_findings :: "BPMNDiagram \<Rightarrow> ValidationResult list" where
  "spec_connectivity_findings d =
     concat (map (\<lambda>p. concat (map (spec_connectivity p) (get_all_flow_objects p)))
               (processes d))"

section \<open>Example diagrams\<close>

text \<open>
  A process with a start event \<^verbatim>\<open>s1\<close> that has an incoming flow, an end event \<^verbatim>\<open>e1\<close>
  that has an outgoing flow, a connected task \<^verbatim>\<open>t0\<close>, and an unconnected task, gateway
  and sub-process; and a diagram whose only finding is a warning.
\<close>

definition ex_conn_proc :: Process where
  "ex_conn_proc =
     (Process_init ''p1'')
       \<lparr> events := [Event_init ''s1'', (Event_init ''e1'')\<lparr>event_type := END\<rparr>],
         tasks := [Task_init ''t0'', Task_init ''t9''],
         gateways := [Gateway_init ''g9''],
         subprocesses := [SubProcess_init ''sp9'' EMBEDDED],
         sequence_flows := [SequenceFlow_init ''f1'' ''t0'' ''s1'',
                            SequenceFlow_init ''f2'' ''e1'' ''t0''] \<rparr>"

definition ex_conn_diag :: BPMNDiagram where
  "ex_conn_diag = add_process ex_conn_proc (BPMNDiagram_init ''d1'')"

definition ex_warn_diag :: BPMNDiagram where
  "ex_warn_diag =
     add_process ((Process_init ''p1'')\<lparr>events := [Event_init ''s1'']\<rparr>) (BPMNDiagram_init ''d1'')"

text \<open>Scenario D: a start event \<^verbatim>\<open>s1\<close>, a task \<^verbatim>\<open>t0\<close> and one flow from \<^verbatim>\<open>t0\<close> to \<^verbatim>\<open>s1\<close>.\<close>

definition ex_scenario_d_proc :: Process where
  "ex_scenario_d_proc =
     (Process_init ''p1'')
       \<lparr> events := [Event_init ''s1''], tasks := [Task_init ''t0''],
         sequence_flows := [SequenceFlow_init ''f1'' ''t0'' ''s1''] \<rparr>"

definition ex_scenario_d :: BPMNDiagram where
  "ex_scenario_d = add_process ex_scenario_d_proc (BPMNDiagram_init ''d1'')"

text \<open>
  Scenario C: an exclusive diverging gateway \<^verbatim>\<open>g1\<close> and one flow leaving it, whose
  target \<^verbatim>\<open>x1\<close> is not in the process.
\<close>

definition ex_scenario_c_gateway :: Gateway where
  "ex_scenario_c_gateway = (Gateway_init ''g1'')\<lparr>gateway_direction := diverging\<rparr>"

definition ex_scenario_c_proc :: Process where
  "ex_scenario_c_proc =
     (Process_init ''p1'')
       \<lparr> gateways := [ex_scenario_c_gateway],
         sequence_flows := [SequenceFlow_init ''f1'' ''g1'' ''x1''] \<rparr>"

definition ex_scenario_c :: BPMNDiagram where
  "ex_scenario_c = add_process ex_scenario_c_proc (BPMNDiagram_init ''d1'')"

section \<open>Entity mutators\<close>

lemma set_default_flow_cases:
  "set_default_flow f g =
     (if kind_of (gateway_type g) \<in> {EXCLUSIVE, INCLUSIVE}
      then (Inr (), g\<lparr>default_flow := Some f\<rparr>)
      else case gateway_type g of
             PlainStr k \<Rightarrow> (Inl (AttributeError ''str'' ''value''), g)
           | EnumMember k \<Rightarrow>
               (Inl (ValueError (''Default flow not supported for ''
                                 @ GatewayType_value k @ '' gateway'')), g))"
  by (cases "gateway_type g")
     (simp_all add: set_default_flow_def is_exclusive_def is_inclusive_def)

text \<open>
  Claim C5, at the input where the code departs from it. The claim asks that
  \<^verbatim>\<open>set_default_flow(f)\<close> on a gateway of any kind other than exclusive or inclusive
  raise a configuration error whose message names the kind. For a parallel gateway
  built by \<^verbatim>\<open>Gateway(id='g2', gateway_type=GatewayType.PARALLEL)\<close> the call raises an
  \<^verbatim>\<open>AttributeError\<close> instead: the stored kind is a plain string, which has no
  \<^verbatim>\<open>.value\<close>, so the message of the \<^verbatim>\<open>ValueError\<close> is never built. The rest of the
  claim holds there and elsewhere: the gateway is left as it was, and on a gateway of
  default (exclusive) or given inclusive kind the call stores the flow id.
\<close>

theorem set_default_flow_parallel_raises_AttributeError:
  "set_default_flow ''f1'' (Gateway_init_kind ''g2'' PARALLEL)
     = (Inl (AttributeError ''str'' ''value''), Gateway_init_kind ''g2'' PARALLEL) \<and>
   default_flow (snd (set_default_flow ''f1'' (Gateway_init_kind ''g2'' PARALLEL))) = None \<and>
   set_default_flow ''f1'' (Gateway_init ''g1'')
     = (Inr (), (Gateway_init ''g1'')\<lparr>default_flow := Some ''f1''\<rparr>) \<and>
   set_default_flow ''f1'' (Gateway_init_kind ''g3'' INCLUSIVE)
     = (Inr (), (Gateway_init_kind ''g3'' INCLUSIVE)\<lparr>default_flow := Some ''f1''\<rparr>)"
  by (simp add: set_default_flow_def is_exclusive_def is_inclusive_def
        Gateway_init_kind_def Gateway_init_def)

text \<open>
  Claim C9. \<^verbatim>\<open>set_multi_instance_parallel\<close> appends the parallel marker and
  \<^verbatim>\<open>set_multi_instance_sequential\<close> the sequential one; both set the collection, the
  element variable and the sequential flag. Markers accumulate: after both calls, in
  either order, the marker list of the task ends with both markers, and the task
  answers yes to both multi-instance queries.
\<close>

theorem multi_instance_markers_accumulate:
  "markers (set_multi_instance_parallel c v t) = markers t @ [PARALLEL_MULTI_INSTANCE] \<and>
   collection (set_multi_instance_parallel c v t) = Some c \<and>
   element_variable (set_multi_instance_parallel c v t) = Some v \<and>
   is_sequential (set_multi_instance_parallel c v t) = False \<and>
   markers (set_multi_instance_sequential c v t) = markers t @ [SEQUENTIAL_MULTI_INSTANCE] \<and>
   collection (set_multi_instance_sequential c v t) = Some c \<and>
   element_variable (set_multi_instance_sequential c v t) = Some v \<and>
   is_sequential (set_multi_instance_sequential c v t) = True \<and>
   markers (set_multi_instance_sequential c' v' (set_multi_instance_parallel c v t))
     = markers t @ [PARALLEL_MULTI_INSTANCE, SEQUENTIAL_MULTI_INSTANCE] \<and>
   markers (set_multi_instance_parallel c' v' (set_multi_instance_sequential c v t))
     = markers t @ [SEQUENTIAL_MULTI_INSTANCE, PARALLEL_MULTI_INSTANCE] \<and>
   is_parallel_multi_instance
     (set_multi_instance_sequential c' v' (set_multi_instance_parallel c v t)) \<and>
   is_sequential_multi_instance
     (set_multi_instance_sequential c' v' (set_multi_instance_parallel c v t))"
  by (simp add: set_multi_instance_parallel_def set_multi_instance_sequential_def
        is_parallel_multi_instance_def is_sequential_multi_instance_def)

text \<open>
  Claim C10. \<^verbatim>\<open>SubProcess.add_boundary_event(e)\<close> always attaches \<open>e\<close> as an
  interrupting boundary event: whatever \<open>e\<close> was before, afterwards its phase is
  boundary, its attachment id is the id of the sub-process, its interrupting flag is
  true, and it is the last entry of the boundary-event list of the sub-process.
\<close>

theorem add_boundary_event_interrupting:
  "event_type (fst (add_boundary_event e S)) = BOUNDARY \<and>
   attached_to_ref (fst (add_boundary_event e S)) = Some (sp_id S) \<and>
   is_interrupting (fst (add_boundary_event e S)) = True \<and>
   boundary_events (snd (add_boundary_event e S))
     = boundary_events S @ [fst (add_boundary_event e S)] \<and>
   sp_id (snd (add_boundary_event e S)) = sp_id S"
  by (cases S)
     (simp add: add_boundary_event_def attach_to_activity_def
        attach_to_activity_default_interrupting_def sp_id_def Let_def)

section \<open>Reference resolution\<close>

lemma scan_elements_find: "scan_elements s xs = List.find (\<lambda>e. id_of e = s) xs"
  by (induction xs) simp_all

lemma scan_elements_None: "scan_elements s xs = None \<longleftrightarrow> s \<notin> id_of ` set xs"
  by (induction xs) auto

lemma scan_elements_Some: "scan_elements s xs = Some e \<Longrightarrow> e \<in> set xs \<and> id_of e = s"
  by (induction xs) (auto split: if_splits)

lemma scan_elements_distinct:
  "distinct (map id_of xs) \<Longrightarrow> e \<in> set xs \<Longrightarrow> scan_elements (id_of e) xs = Some e"
  by (induction xs) auto

lemma scan_elements_append:
  "scan_elements s (xs @ ys) =
     (case scan_elements s xs of Some e \<Rightarrow> Some e | None \<Rightarrow> scan_elements s ys)"
  by (induction xs) simp_all

lemma search_processes_scan:
  "search_processes s ps = scan_elements s (concat (map get_all_elements ps))"
  by (induction ps)
     (simp_all add: Process_get_element_by_id_def scan_elements_append split: option.splits)

lemma search_lanes_scan: "search_lanes s ls = scan_elements s (map LaneE ls)"
  by (induction ls) simp_all

lemma search_pools_scan:
  "search_pools s ps =
     scan_elements s (concat (map (\<lambda>pool. PoolE pool # map LaneE (pool_lanes pool)) ps))"
  by (induction ps) (simp_all add: search_lanes_scan scan_elements_append split: option.splits)

lemma search_message_flows_scan:
  "search_message_flows s ms = scan_elements s (map MessageFlowE ms)"
  by (induction ms) simp_all

lemma search_data_stores_scan:
  "search_data_stores s ms = scan_elements s (map DataStoreE ms)"
  by (induction ms) simp_all

lemma search_annotations_scan:
  "search_annotations s ms = scan_elements s (map TextAnnotationE ms)"
  by (induction ms) simp_all

lemma diagram_lookup_scan:
  "BPMNDiagram_get_element_by_id D s = scan_elements s (diagram_scan_order D)"
  by (simp add: BPMNDiagram_get_element_by_id_def diagram_scan_order_def
        scan_elements_append search_processes_scan search_pools_scan
        search_message_flows_scan search_data_stores_scan search_annotations_scan
      split: option.splits)

text \<open>
  Claim C3, as the code has it. \<^verbatim>\<open>Process.get_element_by_id(s)\<close> looks at the
  elements of \<^verbatim>\<open>get_all_elements()\<close> only, that is at the typed collections of the
  process itself. It returns the first of them whose id is \<open>s\<close>; it returns no match
  if and only if none of them carries \<open>s\<close>; what it returns is one of them and has
  id \<open>s\<close>; and when their ids are pairwise distinct, every one of them is found under
  its own id. What a sub-process holds is not looked at.
\<close>

theorem process_lookup_top_level:
  "Process_get_element_by_id P s = List.find (\<lambda>e. id_of e = s) (get_all_elements P) \<and>
   (Process_get_element_by_id P s = None \<longleftrightarrow> s \<notin> id_of ` set (get_all_elements P)) \<and>
   (Process_get_element_by_id P s = Some e \<longrightarrow> e \<in> set (get_all_elements P) \<and> id_of e = s) \<and>
   (distinct (map id_of (get_all_elements P)) \<and> x \<in> set (get_all_elements P) \<longrightarrow>
      Process_get_element_by_id P (id_of x) = Some x)"
  unfolding Process_get_element_by_id_def
  using scan_elements_find scan_elements_None scan_elements_Some scan_elements_distinct
  by blast

theorem process_lookup_top_level_witness:
  "distinct (map id_of (get_all_elements ex_proc)) \<and>
   TaskE (Task_init ''t0'') \<in> set (get_all_elements ex_proc) \<and>
   Process_get_element_by_id ex_proc ''t0'' = Some (TaskE (Task_init ''t0''))"
  using process_lookup_top_level
          [of ex_proc "''t0''" "TaskE (Task_init ''t0'')" "TaskE (Task_init ''t0'')"]
  by (simp add: ex_proc_def ex_sub_def Process_init_def SubProcess_init_def add_element_def
        Task_init_def get_all_elements_def sp_id_def)

text \<open>
  The claim as stated fails: the task \<^verbatim>\<open>t1\<close> lies under the scope of the example
  process in the specification's reading, being held by its sub-process \<^verbatim>\<open>sp1\<close>, and
  the lookup of \<^verbatim>\<open>t1\<close> finds nothing.
\<close>

theorem process_lookup_counterexample:
  "TaskE (Task_init ''t1'') \<in> set (spec_scope_elements ex_proc) \<and>
   id_of (TaskE (Task_init ''t1'')) = ''t1'' \<and>
   Process_get_element_by_id ex_proc ''t1'' = None"
  by (simp add: spec_scope_elements_def ex_proc_def ex_sub_def Process_init_def
        SubProcess_init_def add_element_def Task_init_def get_all_elements_def
        Process_get_element_by_id_def sp_id_def)

text \<open>
  Claim C4, as the code has it. \<^verbatim>\<open>BPMNDiagram.get_element_by_id(s)\<close> returns the
  first element with id \<open>s\<close> in this order: the elements of each process (through the
  process-level lookup), then each pool followed by the lanes listed directly in that
  pool, then the message flows, then the global data stores and text annotations; it
  returns no match if and only if none of these carries \<open>s\<close>. Lanes nested as child
  lanes are not scanned.
\<close>

theorem diagram_lookup_order:
  "BPMNDiagram_get_element_by_id D s = List.find (\<lambda>e. id_of e = s) (diagram_scan_order D) \<and>
   (BPMNDiagram_get_element_by_id D s = None \<longleftrightarrow> s \<notin> id_of ` set (diagram_scan_order D))"
  by (simp add: diagram_lookup_scan scan_elements_find [symmetric] scan_elements_None)

text \<open>
  The claim as stated fails: the lane \<^verbatim>\<open>L2\<close> is a child lane of a lane of a pool of
  the example diagram, and the lookup of \<^verbatim>\<open>L2\<close> finds nothing.
\<close>

theorem diagram_lookup_counterexample:
  "LaneE (Lane_init ''L2'') \<in> set (spec_diagram_scan_order ex_diag) \<and>
   id_of (LaneE (Lane_init ''L2'')) = ''L2'' \<and>
   BPMNDiagram_get_element_by_id ex_diag ''L2'' = None"
  by (simp add: spec_diagram_scan_order_def ex_diag_def ex_pool_def add_pool_def
        BPMNDiagram_init_def Pool_init_def add_child_lane_def
        Lane_init_def lane_id_def BPMNDiagram_get_element_by_id_def
        Process_get_element_by_id_def)

section \<open>Validation\<close>

text \<open>
  Claim C8. Running \<^verbatim>\<open>validate()\<close> a second time, with the diagram and the rule list
  as they were, gives the same outcome and leaves the same findings in the buffer, so
  in particular the same multiset of findings: the second run clears the buffer first.
\<close>

theorem validate_idempotent:
  "validate (snd (validate v)) = validate v \<and>
   fst (validate (snd (validate v))) = fst (validate v) \<and>
   mset (results (snd (validate (snd (validate v))))) = mset (results (snd (validate v)))"
proof -
  have "validate (snd (validate v)) = validate v"
    by (cases "run_rules (rules v) (diagram v) []")
       (auto simp: validate_def Let_def split: option.splits prod.splits)
  then show ?thesis by simp
qed

lemma run_rules_builtin:
  "run_rules [StartEventRule_init, EndEventRule_init, SequenceFlowRule_init, GatewayRule_init] d []
     = (None, StartEventRule_validate StartEventRule_init d
              @ EndEventRule_validate EndEventRule_init d
              @ SequenceFlowRule_validate SequenceFlowRule_init d
              @ GatewayRule_validate GatewayRule_init d)"
  by (simp add: rule_validate_def StartEventRule_init_def EndEventRule_init_def
        SequenceFlowRule_init_def GatewayRule_init_def)

lemma validate_builtin:
  "validate (BPMNValidator_init d) =
     (let res = StartEventRule_validate StartEventRule_init d
              @ EndEventRule_validate EndEventRule_init d
              @ SequenceFlowRule_validate SequenceFlowRule_init d
              @ GatewayRule_validate GatewayRule_init d
      in (Inr (\<not> list_ex (\<lambda>result. severity result = ERROR) res),
          (BPMNValidator_init d)\<lparr>results := res\<rparr>))"
proof -
  have "run_rules (rules (BPMNValidator_init d)) d [] =
          (None, StartEventRule_validate StartEventRule_init d
              @ EndEventRule_validate EndEventRule_init d
              @ SequenceFlowRule_validate SequenceFlowRule_init d
              @ GatewayRule_validate GatewayRule_init d)"
    using run_rules_builtin by (simp add: BPMNValidator_init_def)
  moreover have "diagram (BPMNValidator_init d) = d"
    by (simp add: BPMNValidator_init_def)
  ultimately show ?thesis
    by (simp add: validate_def Let_def)
qed

text \<open>
  Claim C2. With the four built-in rules \<^verbatim>\<open>validate()\<close> always returns a boolean.
  Whenever \<^verbatim>\<open>validate()\<close> returns, with any rule list, it returns true if and only if
  the findings it leaves in the buffer contain none of severity error; in particular
  it returns true when all of them are warnings or infos.
\<close>

theorem validate_true_iff_no_error:
  "(\<exists>b v'. validate (BPMNValidator_init d) = (Inr b, v')) \<and>
   (validate v = (Inr b, v') \<longrightarrow> (b \<longleftrightarrow> (\<forall>r\<in>set (results v'). severity r \<noteq> ERROR))) \<and>
   (validate v = (Inr b, v') \<and> (\<forall>r\<in>set (results v'). severity r = WARNING \<or> severity r = INFO)
      \<longrightarrow> b)"
proof -
  have total: "\<exists>b v'. validate (BPMNValidator_init d) = (Inr b, v')"
    by (simp add: validate_builtin Let_def)
  have iff: "b \<longleftrightarrow> (\<forall>r\<in>set (results v'). severity r \<noteq> ERROR)"
    if "validate v = (Inr b, v')"
    using that
    by (cases "run_rules (rules v) (diagram v) []")
       (auto simp: validate_def Let_def list_ex_iff split: option.splits)
  have "b" if "validate v = (Inr b, v')"
      and "\<forall>r\<in>set (results v'). severity r = WARNING \<or> severity r = INFO"
    using iff [OF that(1)] that(2) by auto
  with total iff show ?thesis by blast
qed

lemmas ex_warn_defs =
  ex_warn_diag_def add_process_def BPMNDiagram_init_def Process_init_def Event_init_def

theorem validate_true_iff_no_error_witness:
  "validate (BPMNValidator_init ex_warn_diag) =
     (Inr True,
      (BPMNValidator_init ex_warn_diag)
        \<lparr>results := [\<lparr> severity = WARNING, res_element_id = Some ''p1'',
                       res_element_type = Some ''Process'',
                       message = ''Process should have at least one end event'',
                       rule_name = ''end_event_rule'' \<rparr>]\<rparr>) \<and>
   map severity (results (snd (validate (BPMNValidator_init ex_warn_diag)))) = [WARNING]"
  using validate_true_iff_no_error
          [of ex_warn_diag "BPMNValidator_init ex_warn_diag" True
              "(BPMNValidator_init ex_warn_diag)
        \<lparr>results := [\<lparr> severity = WARNING, res_element_id = Some ''p1'',
                       res_element_type = Some ''Process'',
                       message = ''Process should have at least one end event'',
                       rule_name = ''end_event_rule'' \<rparr>]\<rparr>"]
  by (simp add: validate_builtin Let_def ex_warn_defs StartEventRule_validate_def
        EndEventRule_validate_def SequenceFlowRule_validate_def GatewayRule_validate_def
        get_start_events_def get_end_events_def is_start_event_def is_end_event_def
        get_all_flow_objects_def SequenceFlowRule_body_def EndEventRule_init_def)

lemma SequenceFlowRule_body_spec:
  "SequenceFlowRule_body SequenceFlowRule_init p x acc = acc @ spec_connectivity p x"
  by (cases x)
     (simp_all add: SequenceFlowRule_body_def SequenceFlowRule_init_def Let_def
        is_start_event_def is_end_event_def incoming_flows_of_def outgoing_flows_of_def
        start_incoming_error_def end_outgoing_error_def isolated_task_warning_def)

lemma fold_SequenceFlowRule_body:
  "fold (SequenceFlowRule_body SequenceFlowRule_init p) xs acc
     = acc @ concat (map (spec_connectivity p) xs)"
  by (induction xs arbitrary: acc) (simp_all add: SequenceFlowRule_body_spec)

lemma fold_SequenceFlowRule_processes:
  "fold (\<lambda>process. fold (SequenceFlowRule_body SequenceFlowRule_init process)
                          (get_all_flow_objects process))
        ps acc
     = acc @ concat (map (\<lambda>p. concat (map (spec_connectivity p) (get_all_flow_objects p))) ps)"
  by (induction ps arbitrary: acc) (simp_all add: fold_SequenceFlowRule_body)

lemma SequenceFlowRule_validate_spec:
  "SequenceFlowRule_validate SequenceFlowRule_init d = spec_connectivity_findings d"
  by (simp add: SequenceFlowRule_validate_def spec_connectivity_findings_def
        fold_SequenceFlowRule_processes Let_def)

lemma spec_connectivity_mem:
  "r \<in> set (spec_connectivity_findings d) \<longleftrightarrow>
     (\<exists>p\<in>set (processes d). \<exists>x\<in>set (get_all_flow_objects p). r \<in> set (spec_connectivity p x))"
  by (auto simp: spec_connectivity_findings_def)

text \<open>
  Claim C6. The findings of the sequence-flow connectivity rule are exactly those of
  the specification's description, in the order of the processes and of their flow
  objects. So every start event with an incoming sequence flow gets its error, every
  end event with an outgoing sequence flow gets its error, every task with neither
  incoming nor outgoing flows gets its warning, and every warning of the rule is the
  warning of such a task: no gateway and no sub-process is the origin of one.
\<close>

theorem sequence_flow_rule_findings:
  "SequenceFlowRule_validate SequenceFlowRule_init d = spec_connectivity_findings d \<and>
   (p \<in> set (processes d) \<and> e \<in> set (events p) \<and> is_start_event e \<and>
      (\<exists>f\<in>set (sequence_flows p). target_ref f = elem_id e) \<longrightarrow>
      start_incoming_error (elem_id e) \<in> set (SequenceFlowRule_validate SequenceFlowRule_init d)) \<and>
   (p \<in> set (processes d) \<and> e \<in> set (events p) \<and> is_end_event e \<and>
      (\<exists>f\<in>set (sequence_flows p). source_ref f = elem_id e) \<longrightarrow>
      end_outgoing_error (elem_id e) \<in> set (SequenceFlowRule_validate SequenceFlowRule_init d)) \<and>
   (p \<in> set (processes d) \<and> t \<in> set (tasks p) \<and>
      (\<forall>f\<in>set (sequence_flows p). target_ref f \<noteq> elem_id t \<and> source_ref f \<noteq> elem_id t) \<longrightarrow>
      isolated_task_warning (elem_id t) \<in> set (SequenceFlowRule_validate SequenceFlowRule_init d)) \<and>
   (r \<in> set (SequenceFlowRule_validate SequenceFlowRule_init d) \<and> severity r = WARNING \<longrightarrow>
      (\<exists>q\<in>set (processes d). \<exists>u\<in>set (tasks q).
          r = isolated_task_warning (elem_id u) \<and>
          (\<forall>f\<in>set (sequence_flows q). target_ref f \<noteq> elem_id u \<and> source_ref f \<noteq> elem_id u)))"
proof (intro conjI impI)
  show "SequenceFlowRule_validate SequenceFlowRule_init d = spec_connectivity_findings d"
    by (rule SequenceFlowRule_validate_spec)
next
  assume a: "p \<in> set (processes d) \<and> e \<in> set (events p) \<and> is_start_event e \<and>
      (\<exists>f\<in>set (sequence_flows p). target_ref f = elem_id e)"
  then have "EventE e \<in> set (get_all_flow_objects p)"
    by (simp add: get_all_flow_objects_def)
  moreover from a have "start_incoming_error (elem_id e) \<in> set (spec_connectivity p (EventE e))"
    by (auto simp: is_start_event_def incoming_flows_of_def filter_empty_conv)
  ultimately show "start_incoming_error (elem_id e)
      \<in> set (SequenceFlowRule_validate SequenceFlowRule_init d)"
    using a unfolding SequenceFlowRule_validate_spec spec_connectivity_mem by blast
next
  assume a: "p \<in> set (processes d) \<and> e \<in> set (events p) \<and> is_end_event e \<and>
      (\<exists>f\<in>set (sequence_flows p). source_ref f = elem_id e)"
  then have "EventE e \<in> set (get_all_flow_objects p)"
    by (simp add: get_all_flow_objects_def)
  moreover from a have "end_outgoing_error (elem_id e) \<in> set (spec_connectivity p (EventE e))"
    by (auto simp: is_end_event_def outgoing_flows_of_def filter_empty_conv)
  ultimately show "end_outgoing_error (elem_id e)
      \<in> set (SequenceFlowRule_validate SequenceFlowRule_init d)"
    using a unfolding SequenceFlowRule_validate_spec spec_connectivity_mem by blast
next
  assume a: "p \<in> set (processes d) \<and> t \<in> set (tasks p) \<and>
      (\<forall>f\<in>set (sequence_flows p). target_ref f \<noteq> elem_id t \<and> source_ref f \<noteq> elem_id t)"
  then have "TaskE t \<in> set (get_all_flow_objects p)"
    by (simp add: get_all_flow_objects_def)
  moreover from a have "isolated_task_warning (elem_id t) \<in> set (spec_connectivity p (TaskE t))"
    by (auto simp: incoming_flows_of_def outgoing_flows_of_def filter_empty_conv)
  ultimately show "isolated_task_warning (elem_id t)
      \<in> set (SequenceFlowRule_validate SequenceFlowRule_init d)"
    using a unfolding SequenceFlowRule_validate_spec spec_connectivity_mem by blast
next
  assume a: "r \<in> set (SequenceFlowRule_validate SequenceFlowRule_init d) \<and> severity r = WARNING"
  then obtain q x where q: "q \<in> set (processes d)" and x: "x \<in> set (get_all_flow_objects q)"
    and r: "r \<in> set (spec_connectivity q x)"
    unfolding SequenceFlowRule_validate_spec spec_connectivity_mem by blast
  from a have w: "severity r = WARNING" by simp
  show "\<exists>q\<in>set (processes d). \<exists>u\<in>set (tasks q).
          r = isolated_task_warning (elem_id u) \<and>
          (\<forall>f\<in>set (sequence_flows q). target_ref f \<noteq> elem_id u \<and> source_ref f \<noteq> elem_id u)"
  proof (cases x)
    case (TaskE u)
    with x have u: "u \<in> set (tasks q)" by (auto simp: get_all_flow_objects_def)
    from r TaskE have "r = isolated_task_warning (elem_id u) \<and>
        (\<forall>f\<in>set (sequence_flows q). target_ref f \<noteq> elem_id u \<and> source_ref f \<noteq> elem_id u)"
      by (auto simp: incoming_flows_of_def outgoing_flows_of_def filter_empty_conv
            split: if_splits)
    with q u show ?thesis by blast
  next
    case (EventE e)
    with r w show ?thesis
      by (auto simp: start_incoming_error_def end_outgoing_error_def split: if_splits)
  qed (use r x in \<open>auto simp: get_all_flow_objects_def\<close>)
qed


lemmas ex_conn_defs =
  ex_conn_diag_def ex_conn_proc_def add_process_def BPMNDiagram_init_def Process_init_def
  Event_init_def Task_init_def Gateway_init_def SubProcess_init_def SequenceFlow_init_def

theorem sequence_flow_rule_findings_witness:
  "ex_conn_proc \<in> set (processes ex_conn_diag) \<and>
   Event_init ''s1'' \<in> set (events ex_conn_proc) \<and> is_start_event (Event_init ''s1'') \<and>
   map target_ref (sequence_flows ex_conn_proc) = [''s1'', ''t0''] \<and>
   map source_ref (sequence_flows ex_conn_proc) = [''t0'', ''e1''] \<and>
   Task_init ''t9'' \<in> set (tasks ex_conn_proc) \<and>
   SequenceFlowRule_validate SequenceFlowRule_init ex_conn_diag
     = [start_incoming_error ''s1'', end_outgoing_error ''e1'', isolated_task_warning ''t9'']"
  using sequence_flow_rule_findings
          [of ex_conn_diag ex_conn_proc "Event_init ''s1''" "Task_init ''t9''"
              "isolated_task_warning ''t9''"]
  by (simp add: ex_conn_defs spec_connectivity_findings_def get_all_flow_objects_def
        incoming_flows_of_def outgoing_flows_of_def is_start_event_def sp_id_def)

text \<open>
  Claim C7 (scenario D). A diagram with one process that holds a start event \<open>s1\<close>, a
  task \<open>t0\<close> and one sequence flow from \<open>t0\<close> to \<open>s1\<close>: \<^verbatim>\<open>validate()\<close> returns false
  and leaves exactly one finding of severity error, which carries the id of \<open>s1\<close> and
  the name of the sequence-flow rule.
\<close>

theorem scenario_d_one_error:
  assumes "processes d = [p]" and "events p = [s1]" and "tasks p = [t0]"
    and "gateways p = []" and "subprocesses p = []" and "sequence_flows p = [f]"
    and "event_type s1 = START"
    and "source_ref f = elem_id t0" and "target_ref f = elem_id s1"
  shows "fst (validate (BPMNValidator_init d)) = Inr False \<and>
         get_errors (snd (validate (BPMNValidator_init d))) =
           [\<lparr> severity = ERROR, res_element_id = Some (elem_id s1),
              res_element_type = Some ''StartEvent'',
              message = ''Start events cannot have incoming sequence flows'',
              rule_name = ''sequence_flow_rule'' \<rparr>]"
  using assms
  by (simp add: validate_builtin Let_def get_errors_def StartEventRule_validate_def
        EndEventRule_validate_def SequenceFlowRule_validate_def GatewayRule_validate_def
        get_start_events_def get_end_events_def is_start_event_def is_end_event_def
        get_all_flow_objects_def SequenceFlowRule_body_def SequenceFlowRule_init_def)

theorem scenario_d_one_error_witness:
  "processes ex_scenario_d = [ex_scenario_d_proc] \<and>
   events ex_scenario_d_proc = [Event_init ''s1''] \<and>
   tasks ex_scenario_d_proc = [Task_init ''t0''] \<and>
   sequence_flows ex_scenario_d_proc = [SequenceFlow_init ''f1'' ''t0'' ''s1''] \<and>
   fst (validate (BPMNValidator_init ex_scenario_d)) = Inr False \<and>
   get_errors (snd (validate (BPMNValidator_init ex_scenario_d))) =
     [\<lparr> severity = ERROR, res_element_id = Some ''s1'',
        res_element_type = Some ''StartEvent'',
        message = ''Start events cannot have incoming sequence flows'',
        rule_name = ''sequence_flow_rule'' \<rparr>]"
  using scenario_d_one_error
          [of ex_scenario_d ex_scenario_d_proc "Event_init ''s1''" "Task_init ''t0''"
              "SequenceFlow_init ''f1'' ''t0'' ''s1''"]
  by (simp add: ex_scenario_d_def ex_scenario_d_proc_def add_process_def
        BPMNDiagram_init_def Process_init_def Event_init_def Task_init_def
        SequenceFlow_init_def)

text \<open>
  Claim C1 (scenario C), as the code has it. A diagram with one process whose only
  flow object is a diverging gateway \<open>g1\<close> and whose only sequence flow leaves \<open>g1\<close>:
  \<^verbatim>\<open>validate()\<close> leaves two warnings, the missing end event of the process and the
  one warning of the gateway rule (\<^verbatim>\<open>Diverging gateway should have multiple outgoing
  flows\<close>), and it leaves errors: the missing start event of the process and, unless
  the flow leads back into \<open>g1\<close>, the missing incoming flow of \<open>g1\<close>. It returns false.
\<close>

theorem scenario_c_findings:
  assumes "processes d = [p]" and "events p = []" and "tasks p = []"
    and "subprocesses p = []" and "gateways p = [g1]" and "sequence_flows p = [f]"
    and "gateway_direction g1 = diverging"
    and "source_ref f = elem_id g1"
  shows "get_warnings (snd (validate (BPMNValidator_init d))) =
           [\<lparr> severity = WARNING, res_element_id = Some (elem_id p),
              res_element_type = Some ''Process'',
              message = ''Process should have at least one end event'',
              rule_name = ''end_event_rule'' \<rparr>,
            \<lparr> severity = WARNING, res_element_id = Some (elem_id g1),
              res_element_type = Some ''Gateway'',
              message = ''Diverging gateway should have multiple outgoing flows'',
              rule_name = ''gateway_rule'' \<rparr>] \<and>
         get_errors (snd (validate (BPMNValidator_init d))) =
           \<lparr> severity = ERROR, res_element_id = Some (elem_id p),
             res_element_type = Some ''Process'',
             message = ''Process must have at least one start event'',
             rule_name = ''start_event_rule'' \<rparr>
           # (if target_ref f = elem_id g1 then []
              else [\<lparr> severity = ERROR, res_element_id = Some (elem_id g1),
                      res_element_type = Some ''Gateway'',
                      message = ''Gateway must have at least one incoming sequence flow'',
                      rule_name = ''gateway_rule'' \<rparr>]) \<and>
         fst (validate (BPMNValidator_init d)) = Inr False"
  using assms
  by (simp add: validate_builtin Let_def get_errors_def get_warnings_def
        StartEventRule_validate_def
        EndEventRule_validate_def SequenceFlowRule_validate_def GatewayRule_validate_def
        get_start_events_def get_end_events_def
        get_all_flow_objects_def SequenceFlowRule_body_def GatewayRule_body_def
        is_diverging_def is_converging_def
        StartEventRule_init_def EndEventRule_init_def GatewayRule_init_def)


theorem scenario_c_findings_witness:
  "processes ex_scenario_c = [ex_scenario_c_proc] \<and>
   gateways ex_scenario_c_proc = [ex_scenario_c_gateway] \<and>
   gateway_direction ex_scenario_c_gateway = diverging \<and>
   sequence_flows ex_scenario_c_proc = [SequenceFlow_init ''f1'' ''g1'' ''x1''] \<and>
   get_warnings (snd (validate (BPMNValidator_init ex_scenario_c))) =
     [\<lparr> severity = WARNING, res_element_id = Some ''p1'',
        res_element_type = Some ''Process'',
        message = ''Process should have at least one end event'',
        rule_name = ''end_event_rule'' \<rparr>,
      \<lparr> severity = WARNING, res_element_id = Some ''g1'',
        res_element_type = Some ''Gateway'',
        message = ''Diverging gateway should have multiple outgoing flows'',
        rule_name = ''gateway_rule'' \<rparr>]"
  using scenario_c_findings
          [of ex_scenario_c ex_scenario_c_proc ex_scenario_c_gateway
              "SequenceFlow_init ''f1'' ''g1'' ''x1''"]
  by (simp add: ex_scenario_c_def ex_scenario_c_proc_def ex_scenario_c_gateway_def
        add_process_def BPMNDiagram_init_def Process_init_def Gateway_init_def
        SequenceFlow_init_def)

text \<open>
  The claim as stated fails: in scenario C the run leaves two warnings, not one, and
  two errors, not none.
\<close>

theorem scenario_c_counterexample:
  "length (get_warnings (snd (validate (BPMNValidator_init ex_scenario_c)))) = 2 \<and>
   length (get_errors (snd (validate (BPMNValidator_init ex_scenario_c)))) = 2"
  by (simp add: validate_builtin Let_def get_errors_def get_warnings_def
        ex_scenario_c_def ex_scenario_c_proc_def ex_scenario_c_gateway_def
        add_process_def BPMNDiagram_init_def Process_init_def Gateway_init_def
        SequenceFlow_init_def
        StartEventRule_validate_def EndEventRule_validate_def
        SequenceFlowRule_validate_def GatewayRule_validate_def
        get_start_events_def get_end_events_def
        get_all_flow_objects_def SequenceFlowRule_body_def GatewayRule_body_def
        is_diverging_def is_converging_def
        StartEventRule_init_def EndEventRule_init_def GatewayRule_init_def)

end
